theory Spec2Isabelle
  imports Complex_Main "HOL-Library.Char_ord" "HOL-Library.List_Lexorder"
    "HOL-Library.Product_Lexorder"
begin

section \<open>Sectoral difference report: a model of \<open>sectoral_diff_report.py\<close>\<close>

text \<open>
  The class \<open>SectoralDiffReport\<close> compares the output of an emissions simulation with
  the EDGAR inventory. Its methods work on pandas data frames. The model below keeps
  the method names and follows each method statement by statement.

  How pandas is represented:
  \<^item> a float cell is an \<open>fval\<close>: a finite number, one of the two infinities, or
    \<open>NaN\<close>, which is also pandas' marker of a missing value. Finite arithmetic is
    exact: the rounding of float64, its overflow and the sign of zero are left out.
    No statement below rests on regrouping a sum, which rounding does not allow;
  \<^item> a text cell read from a CSV file is a \<open>string option\<close>, \<open>None\<close> for an empty
    cell (pandas reads it as \<open>NaN\<close>);
  \<^item> a data frame is the list of its column names together with the list of its rows;
    a row is a function from column name to cell, read only at the frame's columns;
  \<^item> an exception is the \<open>Inl\<close> branch of a sum type.
\<close>

subsection \<open>Floating-point cells\<close>

datatype fval = Fin real | PInf | NInf | NaN

fun fadd :: "fval \<Rightarrow> fval \<Rightarrow> fval" where
  "fadd NaN _ = NaN"
| "fadd _ NaN = NaN"
| "fadd (Fin a) (Fin b) = Fin (a + b)"
| "fadd PInf NInf = NaN"
| "fadd NInf PInf = NaN"
| "fadd PInf _ = PInf"
| "fadd _ PInf = PInf"
| "fadd NInf _ = NInf"
| "fadd _ NInf = NInf"

fun fneg :: "fval \<Rightarrow> fval" where
  "fneg (Fin a) = Fin (- a)"
| "fneg PInf = NInf"
| "fneg NInf = PInf"
| "fneg NaN = NaN"

definition fsub :: "fval \<Rightarrow> fval \<Rightarrow> fval" where
  "fsub a b = fadd a (fneg b)"

text \<open>
  Division of float columns never raises: a finite non-zero number over zero is an
  infinity, zero over zero and infinity over infinity are \<open>NaN\<close>.
\<close>

fun fdiv :: "fval \<Rightarrow> fval \<Rightarrow> fval" where
  "fdiv NaN _ = NaN"
| "fdiv _ NaN = NaN"
| "fdiv (Fin a) (Fin b) =
     (if b \<noteq> 0 then Fin (a / b)
      else if 0 < a then PInf else if a < 0 then NInf else NaN)"
| "fdiv (Fin a) PInf = Fin 0"
| "fdiv (Fin a) NInf = Fin 0"
| "fdiv PInf (Fin b) = (if 0 \<le> b then PInf else NInf)"
| "fdiv NInf (Fin b) = (if 0 \<le> b then NInf else PInf)"
| "fdiv PInf PInf = NaN"
| "fdiv PInf NInf = NaN"
| "fdiv NInf PInf = NaN"
| "fdiv NInf NInf = NaN"

text \<open>
  \<open>Series.sum()\<close>, \<open>DataFrame.sum()\<close> and a group-by \<open>sum()\<close> skip \<open>NaN\<close> entries
  (\<open>skipna=True\<close>) and start from zero, so the sum of no entry is \<open>0\<close>. The result can
  still be \<open>NaN\<close>, when both infinities are among the entries. The entries are added
  in their order. With float64 the result depends on that order and on the algorithm
  (pandas compensates the rounding in a group-by sum), so two sums are only compared
  below where they add the same entries in the same order, or a single entry.
\<close>

definition sum_skipna :: "fval list \<Rightarrow> fval" where
  "sum_skipna vs = foldl fadd (Fin 0) (filter (\<lambda>v. v \<noteq> NaN) vs)"

subsection \<open>Exceptions\<close>

datatype error =
    FileNotFoundError
  | PermissionError
  | IsADirectoryError
  | UnicodeDecodeError
  | EmptyDataError
  | ParserError
  | KeyError string
  | AttributeError
  | TypeError

text \<open>
  The exceptions of opening a file (subclasses of \<open>OSError\<close>, which is \<open>IOError\<close>), and
  those of decoding and parsing its content.
\<close>

fun io_error :: "error \<Rightarrow> bool" where
  "io_error FileNotFoundError = True"
| "io_error PermissionError = True"
| "io_error IsADirectoryError = True"
| "io_error _ = False"

fun parse_error :: "error \<Rightarrow> bool" where
  "parse_error UnicodeDecodeError = True"
| "parse_error EmptyDataError = True"
| "parse_error ParserError = True"
| "parse_error _ = False"

subsection \<open>The object and its configuration (\<open>__init__\<close>)\<close>

record config =
  misc_dir_path :: string
  iso_alpha_3 :: string
  init_year :: int
  ref_year :: int
  ref_primary_id :: int
  mapping_table_path :: string
  edga_file_path :: string
  report_type :: string

text \<open>\<open>os.path.join\<close> of a directory and a relative file name.\<close>

definition path_join :: "string \<Rightarrow> string \<Rightarrow> string" where
  "path_join d f =
     (if d = [] then f
      else if last d = CHR ''/'' then d @ f
      else d @ ''/'' @ f)"

definition init :: "string \<Rightarrow> string \<Rightarrow> int \<Rightarrow> int \<Rightarrow> int \<Rightarrow> config" where
  "init misc country iy ry rp =
     \<lparr> misc_dir_path = misc,
       iso_alpha_3 = country,
       init_year = iy,
       ref_year = ry,
       ref_primary_id = rp,
       mapping_table_path = path_join misc ''mapping.csv'',
       edga_file_path = path_join misc ''CSC-GHG_emissions-April2024_to_calibrate.csv'',
       report_type = ''all-sectors'' \<rparr>"

subsection \<open>Data frames\<close>

record 'c frame =
  columns :: "string list"
  rows :: "(string \<Rightarrow> 'c) list"

text \<open>
  The simulation output is a frame of numbers: \<open>time_period\<close>, \<open>primary_id\<close> and one
  column per simulated variable.
\<close>

type_synonym sim_df = "fval frame"

subsection \<open>\<open>load_simulation_output_data\<close>\<close>

text \<open>
  \<open>df[name] = column\<close> on a frame: the column is overwritten where it exists and
  appended otherwise.
\<close>

definition setitem :: "string \<Rightarrow> ((string \<Rightarrow> 'c) \<Rightarrow> 'c) \<Rightarrow> 'c frame \<Rightarrow> 'c frame" where
  "setitem name f df =
     \<lparr> columns = (if name \<in> set (columns df) then columns df else columns df @ [name]),
       rows = map (\<lambda>r. r(name := f r)) (rows df) \<rparr>"

definition load_simulation_output_data :: "config \<Rightarrow> sim_df \<Rightarrow> error + sim_df" where
  "load_simulation_output_data cfg simulation_df =
     (if ''time_period'' \<notin> set (columns simulation_df) then Inl (KeyError ''time_period'')
      else
        let simulation_df_filtered =
              setitem ''year'' (\<lambda>r. fadd (r ''time_period'') (Fin (of_int (init_year cfg))))
                simulation_df
        in if ''primary_id'' \<notin> set (columns simulation_df_filtered)
           then Inl (KeyError ''primary_id'')
           else Inr (simulation_df_filtered
                  \<lparr> rows := filter
                      (\<lambda>r. r ''year'' = Fin (of_int (ref_year cfg)) \<and>
                           r ''primary_id'' = Fin (of_int (ref_primary_id cfg)))
                      (rows simulation_df_filtered) \<rparr>))"

subsection \<open>Files\<close>

text \<open>
  The object reads two files and writes two. Their paths are fixed by \<open>__init__\<close> and
  by \<open>generate_diff_reports\<close>, and the four file names differ, so the file system is
  modelled by one slot per file. An input file is missing, or may not be read, or is
  a directory; or its bytes are not text in the encoding it is read with; or it is
  empty; or its lines do not parse; or it parses into a table. Parsing itself (quoting,
  type inference) is pandas' work and is not modelled. The mapping file is read as
  UTF-8. The inventory is read as Latin-1, in which every sequence of bytes is text,
  so the inventory is never \<open>Undecodable\<close>.
\<close>

datatype 'a csv_file =
    Missing
  | NoPermission
  | Directory
  | Undecodable
  | Empty
  | Malformed
  | Parsed 'a

text \<open>
  The mapping file is a table of text cells; which columns it has is part of the file.
\<close>

type_synonym mapping_df = "string option frame"

text \<open>
  The inventory file has the text columns \<open>Code\<close>, \<open>CSC Subsector\<close> and \<open>Gas\<close>, here with
  a string in every cell, and further columns, among them one per year;
  \<open>value_columns\<close> lists the names of these further columns and \<open>year_value\<close> reads
  them.
\<close>

record reference_row =
  Code :: string
  CSC_Subsector :: string
  Gas :: string
  year_value :: "string \<Rightarrow> fval"

record reference_df =
  value_columns :: "string list"
  reference_rows :: "reference_row list"

text \<open>The long form of the inventory, as \<open>melt\<close> returns it.\<close>

record edgar_long_row =
  el_Edgar_Class :: string
  el_Year :: int
  el_Edgar_Values :: fval

text \<open>
  The rows of the mapping table with their \<open>Simulation_Values\<close>, and the rows of the
  two reports. A detailed row has the columns of a subsector row and \<open>Edgar_Class\<close>.
\<close>

record valued =
  Simulation_Values :: fval

record draft_row = valued +
  mapping_cells :: "string \<Rightarrow> string option"

record draft_df =
  draft_columns :: "string list"
  draft_rows :: "draft_row list"

record subsector_row = valued +
  Year :: int
  Subsector :: string
  Edgar_Values :: fval
  diff :: fval

record detailed_row = subsector_row +
  Edgar_Class :: string

record world =
  mapping_csv :: "mapping_df csv_file"
  edgar_csv :: "reference_df csv_file"
  detailed_diff_report_csv :: "detailed_row list option"
  subsector_diff_report_csv :: "subsector_row list option"
  stdout :: "string list"

definition detailed_diff_report_path :: "config \<Rightarrow> string" where
  "detailed_diff_report_path cfg =
     path_join (misc_dir_path cfg) (''detailed_diff_report_'' @ report_type cfg @ ''.csv'')"

definition subsector_diff_report_path :: "config \<Rightarrow> string" where
  "subsector_diff_report_path cfg =
     path_join (misc_dir_path cfg) (''subsector_diff_report_'' @ report_type cfg @ ''.csv'')"

definition read_csv :: "'a csv_file \<Rightarrow> error + 'a" where
  "read_csv f = (case f of
       Missing \<Rightarrow> Inl FileNotFoundError
     | NoPermission \<Rightarrow> Inl PermissionError
     | Directory \<Rightarrow> Inl IsADirectoryError
     | Undecodable \<Rightarrow> Inl UnicodeDecodeError
     | Empty \<Rightarrow> Inl EmptyDataError
     | Malformed \<Rightarrow> Inl ParserError
     | Parsed t \<Rightarrow> Inr t)"

subsection \<open>\<open>load_mapping_table\<close>\<close>

definition load_mapping_table :: "config \<Rightarrow> world \<Rightarrow> error + mapping_df" where
  "load_mapping_table cfg w = read_csv (mapping_csv w)"

subsection \<open>\<open>edgar_data_etl\<close>\<close>

text \<open>\<open>str\<close> of an integer and \<open>int\<close> of a numeral.\<close>

function str_of_nat :: "nat \<Rightarrow> string" where
  "str_of_nat n =
     (if n < 10 then [''0123456789'' ! n]
      else str_of_nat (n div 10) @ [''0123456789'' ! (n mod 10)])"
  by pat_completeness auto
termination
  by (relation "measure (\<lambda>n. n)") auto

definition str_of_int :: "int \<Rightarrow> string" where
  "str_of_int i = (if i < 0 then CHR ''-'' # str_of_nat (nat (- i)) else str_of_nat (nat i))"

fun int_of_digits :: "int \<Rightarrow> string \<Rightarrow> int" where
  "int_of_digits acc [] = acc"
| "int_of_digits acc (c # cs) = int_of_digits (10 * acc + (of_char c - 48)) cs"

definition int_of_str :: "string \<Rightarrow> int" where
  "int_of_str s = (case s of
       [] \<Rightarrow> 0
     | c # cs \<Rightarrow> if c = CHR ''-'' then - int_of_digits 0 cs else int_of_digits 0 s)"

text \<open>
  \<open>melt\<close> raises \<open>KeyError\<close> when the column named \<open>str(ref_year)\<close> is not in the frame;
  a decimal numeral is none of the names of the text columns, so the column is looked
  up among \<open>value_columns\<close>. \<open>astype(int)\<close> is applied to that same numeral.
\<close>

definition edgar_data_etl :: "config \<Rightarrow> world \<Rightarrow> error + edgar_long_row list" where
  "edgar_data_etl cfg w =
     (case read_csv (edgar_csv w) of
        Inl e \<Rightarrow> Inl e
      | Inr edgar_df \<Rightarrow>
          let kept = filter (\<lambda>r. Code r = iso_alpha_3 cfg) (reference_rows edgar_df);
              value_var = str_of_int (ref_year cfg)
          in if value_var \<notin> set (value_columns edgar_df) then Inl (KeyError value_var)
             else Inr (map (\<lambda>r. \<lparr> el_Edgar_Class = CSC_Subsector r @ '':'' @ Gas r,
                                   el_Year = int_of_str value_var,
                                   el_Edgar_Values = year_value r value_var \<rparr>) kept))"

subsection \<open>\<open>calculate_ssp_emission_totals\<close>\<close>

text \<open>\<open>str.split(':')\<close>: the pieces between the colons, empty pieces included.\<close>

fun split_colon :: "string \<Rightarrow> string list" where
  "split_colon [] = [[]]"
| "split_colon (c # cs) =
     (if c = CHR '':'' then [] # split_colon cs
      else (case split_colon cs of
              [] \<Rightarrow> [[c]]
            | w # ws \<Rightarrow> (c # w) # ws))"

text \<open>
  The set \<open>missing_variables\<close> is kept as the list of its elements without repetition;
  \<open>set_update\<close> is \<open>set.update\<close>. The order in which Python iterates over a set of
  strings depends on the string hash of the process; \<open>set_iteration\<close> takes that hash
  as a parameter.
\<close>

definition set_update :: "string list \<Rightarrow> string list \<Rightarrow> string list" where
  "set_update s xs = fold (\<lambda>x acc. if x \<in> set acc then acc else acc @ [x]) xs s"

definition set_iteration :: "(string \<Rightarrow> nat) \<Rightarrow> string list \<Rightarrow> string list" where
  "set_iteration hash s = sort_key hash s"

text \<open>
  \<open>simulation_df[matching_columns].sum().sum()\<close>: the sum of each selected column over
  the rows, then the sum of these column sums.
\<close>

definition subsector_total_emissions :: "sim_df \<Rightarrow> string list \<Rightarrow> fval" where
  "subsector_total_emissions simulation_df vars_list =
     (let matching_columns = filter (\<lambda>col. col \<in> set (columns simulation_df)) vars_list
      in if matching_columns \<noteq> []
         then sum_skipna (map (\<lambda>col. sum_skipna (map (\<lambda>r. r col) (rows simulation_df)))
                 matching_columns)
         else Fin 0)"

text \<open>
  \<open>detailed_report_draft_df['Simulation_Values'] = 0\<close> makes a column of type int64, and
  \<open>.at[index, 'Simulation_Values'] = total\<close> writes into it. A total that is a whole
  number in the range of int64 is stored as it is. For any other total (a fraction, an
  infinity, \<open>NaN\<close>) pandas before version 3 turns the column into float64 and stores
  the total, and pandas from version 3 on raises \<open>TypeError\<close>. Which pandas runs is
  the parameter \<open>strict\<close> of the method: \<open>True\<close> for version 3 and later.
\<close>

definition fits_int64 :: "fval \<Rightarrow> bool" where
  "fits_int64 v = (case v of
       Fin x \<Rightarrow> of_int \<lfloor>x\<rfloor> = x \<and> - (2 ^ 63) \<le> x \<and> x < 2 ^ 63
     | _ \<Rightarrow> False)"

text \<open>
  The loop over \<open>iterrows()\<close>. \<open>row['Vars']\<close> raises \<open>KeyError\<close> when the table has no
  column \<open>Vars\<close>, \<open>.split\<close> raises \<open>AttributeError\<close> on an empty cell, which is a
  float, and the write of the total raises \<open>TypeError\<close> as said above. The loop returns
  the rows with their totals and the set of missing names.
\<close>

fun iterrows :: "bool \<Rightarrow> sim_df \<Rightarrow> string list \<Rightarrow> (string \<Rightarrow> string option) list
    \<Rightarrow> string list \<Rightarrow> error + (draft_row list \<times> string list)" where
  "iterrows strict simulation_df cols [] missing_variables = Inr ([], missing_variables)"
| "iterrows strict simulation_df cols (row # rest) missing_variables =
     (if ''Vars'' \<notin> set cols then Inl (KeyError ''Vars'')
      else case row ''Vars'' of
        None \<Rightarrow> Inl AttributeError
      | Some v \<Rightarrow>
          let vars_list = split_colon v;
              missing_in_row = filter (\<lambda>var. var \<notin> set (columns simulation_df)) vars_list;
              missing_variables' = set_update missing_variables missing_in_row;
              total = subsector_total_emissions simulation_df vars_list
          in if strict \<and> \<not> fits_int64 total then Inl TypeError
             else case iterrows strict simulation_df cols rest missing_variables' of
               Inl e \<Rightarrow> Inl e
             | Inr (acc, m) \<Rightarrow>
                 Inr (\<lparr> Simulation_Values = total, mapping_cells = row \<rparr> # acc, m))"

definition printed_lines :: "(string \<Rightarrow> nat) \<Rightarrow> string list \<Rightarrow> string list" where
  "printed_lines hash missing_variables =
     (if missing_variables \<noteq> []
      then ''The following variables from Vars are not present in simulation_df:''
             # set_iteration hash missing_variables
      else [''All variables from Vars are present in simulation_df.''])"

text \<open>
  The method returns the augmented table; the model returns with it the set of missing
  names and the lines printed, which the method only shows.
\<close>

definition calculate_ssp_emission_totals ::
    "bool \<Rightarrow> (string \<Rightarrow> nat) \<Rightarrow> sim_df \<Rightarrow> mapping_df
      \<Rightarrow> error + (draft_df \<times> string list \<times> string list)" where
  "calculate_ssp_emission_totals strict hash simulation_df mapping_df =
     (case iterrows strict simulation_df (columns mapping_df) (rows mapping_df) [] of
        Inl e \<Rightarrow> Inl e
      | Inr (acc, missing_variables) \<Rightarrow>
          Inr (\<lparr> draft_columns =
                   (if ''Simulation_Values'' \<in> set (columns mapping_df) then columns mapping_df
                    else columns mapping_df @ [''Simulation_Values'']),
                 draft_rows = acc \<rparr>,
               missing_variables,
               printed_lines hash missing_variables))"

subsection \<open>\<open>generate_detailed_diff_report\<close>\<close>

text \<open>
  \<open>groupby(['Subsector', 'Edgar_Class'])\<close> drops the rows in which one of the two keys
  is empty (\<open>dropna=True\<close>), and lists the groups in the ascending order of their keys
  (\<open>sort=True\<close>).
\<close>

definition group_key :: "draft_row \<Rightarrow> (string \<times> string) option" where
  "group_key r =
     (case mapping_cells r ''Subsector'' of
        None \<Rightarrow> None
      | Some s \<Rightarrow> (case mapping_cells r ''Edgar_Class'' of
                     None \<Rightarrow> None
                   | Some c \<Rightarrow> Some (s, c)))"

definition groupby_sum :: "draft_row list \<Rightarrow> ((string \<times> string) \<times> fval) list" where
  "groupby_sum rs =
     map (\<lambda>k. (k, sum_skipna (map Simulation_Values (filter (\<lambda>r. group_key r = Some k) rs))))
       (sort (remdups (List.map_filter group_key rs)))"

text \<open>
  \<open>pd.merge(..., how='left')\<close> on \<open>Edgar_Class\<close>: a left row is paired with every
  inventory row of its class, in their order, and kept once with \<open>NaN\<close> as
  \<open>Edgar_Values\<close> when there is none. The \<open>Year\<close> the merge brings is overwritten by
  \<open>ref_year\<close> before the report is returned.
\<close>

definition merge_left ::
    "((string \<times> string) \<times> fval) list \<Rightarrow> edgar_long_row list \<Rightarrow> ((string \<times> string) \<times> fval \<times> fval) list" where
  "merge_left agg edgar_df =
     concat (map (\<lambda>(k, v).
        (case filter (\<lambda>e. el_Edgar_Class e = snd k) edgar_df of
           [] \<Rightarrow> [(k, v, NaN)]
         | m # ms \<Rightarrow> map (\<lambda>e. (k, v, el_Edgar_Values e)) (m # ms))) agg)"

definition generate_detailed_diff_report ::
    "config \<Rightarrow> draft_df \<Rightarrow> edgar_long_row list \<Rightarrow> error + detailed_row list" where
  "generate_detailed_diff_report cfg detailed_report_draft_df edgar_df =
     (if ''Subsector'' \<notin> set (draft_columns detailed_report_draft_df)
      then Inl (KeyError ''Subsector'')
      else if ''Edgar_Class'' \<notin> set (draft_columns detailed_report_draft_df)
      then Inl (KeyError ''Edgar_Class'')
      else Inr (map (\<lambda>(k, v, e).
                  \<lparr> Simulation_Values = v,
                    Year = ref_year cfg,
                    Subsector = fst k,
                    Edgar_Values = e,
                    diff = fdiv (fsub v e) e,
                    Edgar_Class = snd k \<rparr>)
                (merge_left (groupby_sum (draft_rows detailed_report_draft_df)) edgar_df)))"

subsection \<open>\<open>generate_subsector_diff_report\<close>\<close>

definition generate_subsector_diff_report :: "config \<Rightarrow> detailed_row list \<Rightarrow> subsector_row list" where
  "generate_subsector_diff_report cfg detailed_diff_report_complete =
     map (\<lambda>s.
        let grp = filter (\<lambda>r. Subsector r = s) detailed_diff_report_complete;
            sim = sum_skipna (map Simulation_Values grp);
            edg = sum_skipna (map Edgar_Values grp)
        in \<lparr> Simulation_Values = sim,
             Year = ref_year cfg,
             Subsector = s,
             Edgar_Values = edg,
             diff = fdiv (fsub sim edg) edg \<rparr>)
       (sort (remdups (map Subsector detailed_diff_report_complete)))"

subsection \<open>\<open>generate_diff_reports\<close>\<close>

text \<open>
  The orchestrator returns the world it leaves and either the exception raised or the
  two reports. The lines of the aggregator are printed when it returns; the two files
  are written last. The version of pandas and the string hash of the process are
  parameters of a run.
\<close>

definition generate_diff_reports ::
    "config \<Rightarrow> bool \<Rightarrow> (string \<Rightarrow> nat) \<Rightarrow> world \<Rightarrow> sim_df
      \<Rightarrow> world \<times> (error + detailed_row list \<times> subsector_row list)" where
  "generate_diff_reports cfg strict hash w simulation_df =
     (case load_mapping_table cfg w of
        Inl e \<Rightarrow> (w, Inl e)
      | Inr mapping_df \<Rightarrow>
     (case load_simulation_output_data cfg simulation_df of
        Inl e \<Rightarrow> (w, Inl e)
      | Inr simulation_df_filtered \<Rightarrow>
     (case edgar_data_etl cfg w of
        Inl e \<Rightarrow> (w, Inl e)
      | Inr edgar_df \<Rightarrow>
     (case calculate_ssp_emission_totals strict hash simulation_df_filtered mapping_df of
        Inl e \<Rightarrow> (w, Inl e)
      | Inr (detailed_report_draft_df, missing_variables, printed) \<Rightarrow>
          let w1 = w \<lparr> stdout := stdout w @ printed \<rparr>
          in (case generate_detailed_diff_report cfg detailed_report_draft_df edgar_df of
                Inl e \<Rightarrow> (w1, Inl e)
              | Inr detailed_diff_report_complete \<Rightarrow>
                  let subsector_diff_report =
                        generate_subsector_diff_report cfg detailed_diff_report_complete;
                      w2 = w1 \<lparr> detailed_diff_report_csv := Some detailed_diff_report_complete \<rparr>;
                      w3 = w2 \<lparr> subsector_diff_report_csv := Some subsector_diff_report \<rparr>
                  in (w3, Inr (detailed_diff_report_complete, subsector_diff_report)))))))"

section \<open>The methods on a store of objects\<close>

text \<open>
  A data frame is a mutable object and a method receives a reference to it. To say
  which objects a method writes, the three methods that start with \<open>.copy()\<close> are
  modelled a second time on a store: a list of objects, a reference being an index.
  \<open>.copy()\<close>, \<open>groupby(...).sum().reset_index()\<close>, \<open>pd.merge\<close>, a selection of rows
  and a selection of columns allocate a new object; \<open>df[name] = ...\<close> and
  \<open>df.at[index, name] = ...\<close> overwrite the object they are applied to. A merged frame
  carries its \<open>diff\<close> and \<open>Year\<close> columns once they have been assigned.
\<close>

datatype obj =
    SimFrame sim_df
  | MappingFrame mapping_df
  | DraftFrame draft_df
  | EdgarFrame "edgar_long_row list"
  | GroupedFrame "((string \<times> string) \<times> fval) list"
  | MergedFrame "((string \<times> string) \<times> fval \<times> fval) list" "fval list option" "int list option"
  | DetailedFrame "detailed_row list"

type_synonym store = "obj list"

definition alloc :: "store \<Rightarrow> obj \<Rightarrow> store \<times> nat" where
  "alloc h x = (h @ [x], length h)"

definition load_simulation_output_data_st ::
    "config \<Rightarrow> store \<Rightarrow> nat \<Rightarrow> store \<times> (error + nat)" where
  "load_simulation_output_data_st cfg h simulation_df =
     (case h ! simulation_df of
        SimFrame df \<Rightarrow>
          let (h1, simulation_df_filtered) = alloc h (SimFrame df)
          in if ''time_period'' \<notin> set (columns df) then (h1, Inl (KeyError ''time_period''))
             else
               let with_year =
                     setitem ''year''
                       (\<lambda>r. fadd (r ''time_period'') (Fin (of_int (init_year cfg)))) df;
                   h2 = h1[simulation_df_filtered := SimFrame with_year]
               in if ''primary_id'' \<notin> set (columns with_year)
                  then (h2, Inl (KeyError ''primary_id''))
                  else
                    let (h3, selected) =
                          alloc h2 (SimFrame (with_year
                            \<lparr> rows := filter
                                (\<lambda>r. r ''year'' = Fin (of_int (ref_year cfg)) \<and>
                                     r ''primary_id'' = Fin (of_int (ref_primary_id cfg)))
                                (rows with_year) \<rparr>))
                    in (h3, Inr selected)
      | _ \<Rightarrow> (h, Inl AttributeError))"

text \<open>
  The loop of the aggregator on the store: the row with index \<open>i\<close> is read from the
  copy \<open>d\<close>, and \<open>.at[i, 'Simulation_Values']\<close> writes into the copy, or raises.
\<close>

fun iterrows_st :: "bool \<Rightarrow> sim_df \<Rightarrow> nat \<Rightarrow> nat list \<Rightarrow> store \<Rightarrow> string list
    \<Rightarrow> store \<times> (error + string list)" where
  "iterrows_st strict simulation_df d [] h missing_variables = (h, Inr missing_variables)"
| "iterrows_st strict simulation_df d (i # rest) h missing_variables =
     (case h ! d of
        DraftFrame df \<Rightarrow>
          if ''Vars'' \<notin> set (draft_columns df) then (h, Inl (KeyError ''Vars''))
          else (case mapping_cells (draft_rows df ! i) ''Vars'' of
             None \<Rightarrow> (h, Inl AttributeError)
           | Some v \<Rightarrow>
               let vars_list = split_colon v;
                   missing_in_row =
                     filter (\<lambda>var. var \<notin> set (columns simulation_df)) vars_list;
                   missing_variables' = set_update missing_variables missing_in_row;
                   total = subsector_total_emissions simulation_df vars_list;
                   h' = h[d := DraftFrame (df \<lparr> draft_rows :=
                           (draft_rows df)[i := (draft_rows df ! i)
                              \<lparr> Simulation_Values := total \<rparr>] \<rparr>)]
               in if strict \<and> \<not> fits_int64 total then (h, Inl TypeError)
                  else iterrows_st strict simulation_df d rest h' missing_variables')
      | _ \<Rightarrow> (h, Inl AttributeError))"

definition calculate_ssp_emission_totals_st ::
    "bool \<Rightarrow> (string \<Rightarrow> nat) \<Rightarrow> store \<Rightarrow> nat \<Rightarrow> nat
      \<Rightarrow> store \<times> (error + (nat \<times> string list \<times> string list))" where
  "calculate_ssp_emission_totals_st strict hash h simulation_df mapping_df =
     (case (h ! simulation_df, h ! mapping_df) of
        (SimFrame sdf, MappingFrame mdf) \<Rightarrow>
          let (h1, detailed_report_draft_df) = alloc h (MappingFrame mdf);
              h2 = h1[detailed_report_draft_df := DraftFrame
                     \<lparr> draft_columns =
                         (if ''Simulation_Values'' \<in> set (columns mdf) then columns mdf
                          else columns mdf @ [''Simulation_Values'']),
                       draft_rows =
                         map (\<lambda>r. \<lparr> Simulation_Values = Fin 0, mapping_cells = r \<rparr>)
                           (rows mdf) \<rparr>]
          in (case iterrows_st strict sdf detailed_report_draft_df
                     [0 ..< length (rows mdf)] h2 [] of
                (h3, Inl e) \<Rightarrow> (h3, Inl e)
              | (h3, Inr missing_variables) \<Rightarrow>
                  (h3, Inr (detailed_report_draft_df, missing_variables,
                            printed_lines hash missing_variables)))
      | _ \<Rightarrow> (h, Inl AttributeError))"

definition generate_detailed_diff_report_st ::
    "config \<Rightarrow> store \<Rightarrow> nat \<Rightarrow> nat \<Rightarrow> store \<times> (error + nat)" where
  "generate_detailed_diff_report_st cfg h detailed_report_draft_df edgar_df =
     (case (h ! detailed_report_draft_df, h ! edgar_df) of
        (DraftFrame ddf, EdgarFrame edf) \<Rightarrow>
          let (h1, detailed_diff_report) = alloc h (DraftFrame ddf)
          in if ''Subsector'' \<notin> set (draft_columns ddf) then (h1, Inl (KeyError ''Subsector''))
             else if ''Edgar_Class'' \<notin> set (draft_columns ddf)
             then (h1, Inl (KeyError ''Edgar_Class''))
             else
               let agg = groupby_sum (draft_rows ddf);
                   (h2, detailed_diff_report_agg) = alloc h1 (GroupedFrame agg);
                   merged = merge_left agg edf;
                   (h3, detailed_diff_report_merge) = alloc h2 (MergedFrame merged None None);
                   diffs = map (\<lambda>(k, v, e). fdiv (fsub v e) e) merged;
                   h4 = h3[detailed_diff_report_merge := MergedFrame merged (Some diffs) None];
                   years = map (\<lambda>_. ref_year cfg) merged;
                   h5 = h4[detailed_diff_report_merge :=
                            MergedFrame merged (Some diffs) (Some years)];
                   (h6, detailed_diff_report_complete) =
                     alloc h5 (DetailedFrame
                       (map (\<lambda>((k, v, e), d, y).
                          \<lparr> Simulation_Values = v,
                            Year = y,
                            Subsector = fst k,
                            Edgar_Values = e,
                            diff = d,
                            Edgar_Class = snd k \<rparr>)
                        (zip merged (zip diffs years))))
               in (h6, Inr detailed_diff_report_complete)
      | _ \<Rightarrow> (h, Inl AttributeError))"

section \<open>The roll-up the specification compares with\<close>

text \<open>
  The specification compares the \<open>Simulation_Values\<close> of the subsector report with
  the result of grouping the augmented mapping table directly by \<open>Subsector\<close> and
  summing \<open>Simulation_Values\<close>. This direct roll-up is not a method of the class; it
  is written here after the specification's words, with the group-by of pandas: rows
  with an empty \<open>Subsector\<close> are dropped and the groups are listed in ascending order.
\<close>

definition direct_subsector_totals :: "draft_df \<Rightarrow> (string \<times> fval) list" where
  "direct_subsector_totals detailed_report_draft_df =
     map (\<lambda>s. (s, sum_skipna (map Simulation_Values
                   (filter (\<lambda>r. mapping_cells r ''Subsector'' = Some s)
                      (draft_rows detailed_report_draft_df)))))
       (sort (remdups (List.map_filter (\<lambda>r. mapping_cells r ''Subsector'')
          (draft_rows detailed_report_draft_df))))"

section \<open>Example inputs\<close>

definition cfg_2015 :: config where
  "cfg_2015 = init ''misc'' ''HRV'' 2010 2015 0"

text \<open>Two simulation rows of the year 2015, for the entities 0 and 1.\<close>

definition sim_row_0 :: "string \<Rightarrow> fval" where
  "sim_row_0 = (\<lambda>_. NaN)(''time_period'' := Fin 5, ''primary_id'' := Fin 0,
                        ''CO2_A'' := Fin 10, ''CO2_B'' := Fin 5)"

definition sim_row_1 :: "string \<Rightarrow> fval" where
  "sim_row_1 = (\<lambda>_. NaN)(''time_period'' := Fin 5, ''primary_id'' := Fin 1,
                        ''CO2_A'' := Fin 7, ''CO2_B'' := Fin 1)"

definition sim_2015 :: sim_df where
  "sim_2015 = \<lparr> columns = [''time_period'', ''primary_id'', ''CO2_A'', ''CO2_B''],
                rows = [sim_row_0, sim_row_1] \<rparr>"

definition slice_2015 :: sim_df where
  "slice_2015 = \<lparr> columns = [''time_period'', ''primary_id'', ''CO2_A'', ''CO2_B'', ''year''],
                  rows = [sim_row_0(''year'' := Fin 2015)] \<rparr>"

text \<open>
  A mapping table of four rows: two feed \<open>Energy:CO2\<close>; the other two name only
  variables the simulation does not have, one of them twice and one in another case.
\<close>

definition mapping_row :: "string \<Rightarrow> string \<Rightarrow> string \<Rightarrow> string \<Rightarrow> string \<Rightarrow> string option" where
  "mapping_row sector subsector vars edgar_class =
     (\<lambda>_. None)(''Sector'' := Some sector, ''Subsector'' := Some subsector,
                ''Vars'' := Some vars, ''Edgar_Class'' := Some edgar_class)"

definition mapping_4 :: mapping_df where
  "mapping_4 = \<lparr> columns = [''Sector'', ''Subsector'', ''Vars'', ''Edgar_Class''],
                 rows = [mapping_row ''En'' ''Energy'' ''CO2_A:CO2_B'' ''Energy:CO2'',
                         mapping_row ''En'' ''Energy'' ''CO2_A'' ''Energy:CO2'',
                         mapping_row ''Wa'' ''Waste'' ''CH4_X:co2_a'' ''Waste:CH4'',
                         mapping_row ''Wa'' ''Waste'' ''CH4_X'' ''Waste:N2O''] \<rparr>"

text \<open>A mapping file without the columns \<open>Sector\<close>, \<open>Subsector\<close> and \<open>Vars\<close>.\<close>

definition mapping_no_columns :: mapping_df where
  "mapping_no_columns = \<lparr> columns = [''Edgar_Class''],
                          rows = [(\<lambda>_. None)(''Edgar_Class'' := Some ''Energy:CO2'')] \<rparr>"

text \<open>An inventory with the years 2014 and 2015, and one with 2014 only.\<close>

definition reference_row_of :: "string \<Rightarrow> string \<Rightarrow> string \<Rightarrow> fval \<Rightarrow> fval \<Rightarrow> reference_row" where
  "reference_row_of country subsector gas v2014 v2015 =
     \<lparr> Code = country, CSC_Subsector = subsector, Gas = gas,
       year_value = (\<lambda>_. NaN)(''2014'' := v2014, ''2015'' := v2015) \<rparr>"

definition reference_2015 :: reference_df where
  "reference_2015 = \<lparr> value_columns = [''2014'', ''2015''],
                      reference_rows =
                        [reference_row_of ''HRV'' ''Energy'' ''CO2'' (Fin 18) (Fin 20),
                         reference_row_of ''SRB'' ''Energy'' ''CO2'' (Fin 90) (Fin 99),
                         reference_row_of ''HRV'' ''Waste'' ''CH4'' (Fin 3) (Fin 4)] \<rparr>"

definition reference_2014_only :: reference_df where
  "reference_2014_only = \<lparr> value_columns = [''2014''],
                           reference_rows =
                             [reference_row_of ''HRV'' ''Energy'' ''CO2'' (Fin 18) NaN] \<rparr>"

definition world_of :: "mapping_df csv_file \<Rightarrow> reference_df csv_file \<Rightarrow> world" where
  "world_of m e = \<lparr> mapping_csv = m, edgar_csv = e, detailed_diff_report_csv = None,
                    subsector_diff_report_csv = None, stdout = [] \<rparr>"

text \<open>Augmented mapping tables and long inventories given directly.\<close>

definition draft_row_of :: "string \<Rightarrow> string \<Rightarrow> fval \<Rightarrow> draft_row" where
  "draft_row_of subsector edgar_class v =
     \<lparr> Simulation_Values = v,
       mapping_cells = (\<lambda>_. None)(''Subsector'' := Some subsector,
                                  ''Edgar_Class'' := Some edgar_class) \<rparr>"

definition draft_of :: "draft_row list \<Rightarrow> draft_df" where
  "draft_of rs = \<lparr> draft_columns = [''Subsector'', ''Edgar_Class'', ''Simulation_Values''],
                   draft_rows = rs \<rparr>"

definition edgar_row_of :: "string \<Rightarrow> fval \<Rightarrow> edgar_long_row" where
  "edgar_row_of edgar_class v =
     \<lparr> el_Edgar_Class = edgar_class, el_Year = 2015, el_Edgar_Values = v \<rparr>"

definition detailed_row_of :: "string \<Rightarrow> string \<Rightarrow> fval \<Rightarrow> fval \<Rightarrow> fval \<Rightarrow> detailed_row" where
  "detailed_row_of subsector edgar_class v e d =
     \<lparr> Simulation_Values = v, Year = 2015, Subsector = subsector, Edgar_Values = e,
       diff = d, Edgar_Class = edgar_class \<rparr>"

definition subsector_row_of :: "string \<Rightarrow> fval \<Rightarrow> fval \<Rightarrow> fval \<Rightarrow> subsector_row" where
  "subsector_row_of subsector v e d =
     \<lparr> Simulation_Values = v, Year = 2015, Subsector = subsector, Edgar_Values = e,
       diff = d \<rparr>"

definition draft_3 :: draft_df where
  "draft_3 = draft_of [draft_row_of ''Energy'' ''Energy:CO2'' (Fin 15),
                       draft_row_of ''Energy'' ''Energy:CO2'' (Fin 10),
                       draft_row_of ''Waste'' ''Waste:CH4'' (Fin 3),
                       draft_row_of ''Waste'' ''Waste:N2O'' (Fin 0)]"

definition edgar_3 :: "edgar_long_row list" where
  "edgar_3 = [edgar_row_of ''Energy:CO2'' (Fin 20),
              edgar_row_of ''Waste:CH4'' (Fin 0),
              edgar_row_of ''Waste:N2O'' (Fin 0)]"

definition edgar_energy :: "edgar_long_row list" where
  "edgar_energy = [edgar_row_of ''Energy:CO2'' (Fin 20)]"

text \<open>One mapping row, and an inventory with two rows of its class.\<close>

definition draft_1 :: draft_df where
  "draft_1 = draft_of [draft_row_of ''Energy'' ''Energy:CO2'' (Fin 10)]"

definition edgar_twice :: "edgar_long_row list" where
  "edgar_twice = [edgar_row_of ''Energy:CO2'' (Fin 20), edgar_row_of ''Energy:CO2'' (Fin 5)]"

text \<open>A detailed report with a row that found no inventory row.\<close>

definition detailed_waste :: "detailed_row list" where
  "detailed_waste = [detailed_row_of ''Waste'' ''Waste:CH4'' (Fin 3) (Fin 4) (Fin (- 1 / 4)),
                     detailed_row_of ''Waste'' ''Waste:N2O'' (Fin 0) NaN NaN]"

text \<open>A store with a simulation table, a mapping table, an augmented table and a long inventory.\<close>

definition store_4 :: store where
  "store_4 = [SimFrame sim_2015, MappingFrame mapping_4, DraftFrame draft_3,
              EdgarFrame edgar_energy]"

text \<open>
  An augmented table whose row has no \<open>Edgar_Class\<close>, and one with both infinities in
  one group.
\<close>

definition draft_no_class :: draft_df where
  "draft_no_class = draft_of
     [\<lparr> Simulation_Values = Fin 10,
        mapping_cells = (\<lambda>_. None)(''Subsector'' := Some ''Energy'') \<rparr>]"

definition draft_infinite :: draft_df where
  "draft_infinite = draft_of [draft_row_of ''Energy'' ''Energy:CO2'' PInf,
                              draft_row_of ''Energy'' ''Energy:CO2'' NInf,
                              draft_row_of ''Energy'' ''Energy:CH4'' (Fin 5)]"



text \<open>A simulation slice in which \<open>CO2_A\<close> is one half.\<close>

definition slice_half :: sim_df where
  "slice_half = \<lparr> columns = [''time_period'', ''primary_id'', ''CO2_A'', ''CO2_B'', ''year''],
                  rows = [sim_row_0(''year'' := Fin 2015, ''CO2_A'' := Fin (1 / 2))] \<rparr>"

section \<open>Properties\<close>

subsection \<open>The simulation filter\<close>

lemma load_simulation_output_data_returns:
  assumes "''time_period'' \<in> set (columns simulation_df)"
    and "''primary_id'' \<in> set (columns simulation_df)"
  shows "\<exists>out. load_simulation_output_data cfg simulation_df = Inr out"
  using assms by (simp add: load_simulation_output_data_def setitem_def Let_def)

text \<open>
  Claim C5. When the simulation table has the columns \<open>time_period\<close> and \<open>primary_id\<close>,
  the filter returns, in their order, exactly the rows whose \<open>time_period + init_year\<close>
  is \<open>ref_year\<close> and whose \<open>primary_id\<close> is \<open>ref_primary_id\<close>, each extended by the
  derived \<open>year\<close> column.
\<close>

theorem load_simulation_output_data_filters:
  assumes "''time_period'' \<in> set (columns simulation_df)"
    and "''primary_id'' \<in> set (columns simulation_df)"
  shows "\<exists>out. load_simulation_output_data cfg simulation_df = Inr out \<and>
           rows out =
             map (\<lambda>r. r(''year'' := Fin (of_int (ref_year cfg))))
               (filter (\<lambda>r. fadd (r ''time_period'') (Fin (of_int (init_year cfg)))
                               = Fin (of_int (ref_year cfg)) \<and>
                             r ''primary_id'' = Fin (of_int (ref_primary_id cfg)))
                  (rows simulation_df))"
proof -
  let ?y = "\<lambda>r::string \<Rightarrow> fval. fadd (r ''time_period'') (Fin (of_int (init_year cfg)))"
  let ?P = "\<lambda>r::string \<Rightarrow> fval. ?y r = Fin (of_int (ref_year cfg)) \<and>
              r ''primary_id'' = Fin (of_int (ref_primary_id cfg))"
  let ?Q = "\<lambda>r::string \<Rightarrow> fval. r ''year'' = Fin (of_int (ref_year cfg)) \<and>
              r ''primary_id'' = Fin (of_int (ref_primary_id cfg))"
  have pid: "''primary_id'' \<in> set (columns (setitem ''year'' ?y simulation_df))"
    using assms(2) by (simp add: setitem_def)
  have "filter ?Q (map (\<lambda>r. r(''year'' := ?y r)) xs)
          = map (\<lambda>r. r(''year'' := Fin (of_int (ref_year cfg)))) (filter ?P xs)" for xs
    by (induction xs) auto
  then have "filter ?Q (rows (setitem ''year'' ?y simulation_df))
          = map (\<lambda>r. r(''year'' := Fin (of_int (ref_year cfg)))) (filter ?P (rows simulation_df))"
    by (simp add: setitem_def)
  with assms(1) pid show ?thesis
    by (simp add: load_simulation_output_data_def Let_def)
qed

theorem load_simulation_output_data_filters_witness:
  "''time_period'' \<in> set (columns sim_2015) \<and> ''primary_id'' \<in> set (columns sim_2015) \<and>
   (\<exists>out. load_simulation_output_data cfg_2015 sim_2015 = Inr out \<and>
       rows out = [sim_row_0(''year'' := Fin 2015)])"
  using load_simulation_output_data_filters [of sim_2015 cfg_2015]
  by (simp add: cfg_2015_def init_def sim_2015_def sim_row_0_def sim_row_1_def)

subsection \<open>Arithmetic of cells\<close>

lemma fadd_zero [simp]: "fadd v (Fin 0) = v" "fadd (Fin 0) v = v"
  by (cases v; simp)+

lemma fdiv_by_zero:
  "fdiv (fsub v (Fin 0)) (Fin 0) \<noteq> PInf \<Longrightarrow> fdiv (fsub v (Fin 0)) (Fin 0) \<noteq> NaN
     \<Longrightarrow> fdiv (fsub v (Fin 0)) (Fin 0) = NInf"
  by (cases v) (auto simp: fsub_def split: if_splits)

subsection \<open>The examples\<close>

lemma Simulation_Values_draft_row_of [simp]: "Simulation_Values (draft_row_of s c v) = v"
  by (simp add: draft_row_of_def)

lemma group_key_draft_row_of [simp]: "group_key (draft_row_of s c v) = Some (s, c)"
  by (simp add: group_key_def draft_row_of_def)

lemma Subsector_draft_row_of [simp]: "mapping_cells (draft_row_of s c v) ''Subsector'' = Some s"
  by (simp add: draft_row_of_def)

lemma Edgar_Class_draft_row_of [simp]:
  "mapping_cells (draft_row_of s c v) ''Edgar_Class'' = Some c"
  by (simp add: draft_row_of_def)

lemma detailed_row_of_fields [simp]:
  "Simulation_Values (detailed_row_of s c v e d) = v"
  "Subsector (detailed_row_of s c v e d) = s"
  "Edgar_Class (detailed_row_of s c v e d) = c"
  "Edgar_Values (detailed_row_of s c v e d) = e"
  "diff (detailed_row_of s c v e d) = d"
  by (simp_all add: detailed_row_of_def)

lemma subsector_row_of_fields [simp]:
  "Simulation_Values (subsector_row_of s v e d) = v"
  "Subsector (subsector_row_of s v e d) = s"
  "Edgar_Values (subsector_row_of s v e d) = e"
  "diff (subsector_row_of s v e d) = d"
  by (simp_all add: subsector_row_of_def)

lemmas report_eval =
  generate_detailed_diff_report_def generate_subsector_diff_report_def groupby_sum_def
  merge_left_def draft_of_def edgar_row_of_def detailed_row_of_def subsector_row_of_def
  List.map_filter_simps sum_skipna_def fsub_def cfg_2015_def init_def Let_def

lemma detailed_3:
  "generate_detailed_diff_report cfg_2015 draft_3 edgar_3 =
     Inr [detailed_row_of ''Energy'' ''Energy:CO2'' (Fin 25) (Fin 20) (Fin (1 / 4)),
          detailed_row_of ''Waste'' ''Waste:CH4'' (Fin 3) (Fin 0) PInf,
          detailed_row_of ''Waste'' ''Waste:N2O'' (Fin 0) (Fin 0) NaN]"
  by (simp add: report_eval draft_3_def edgar_3_def)

lemma subsector_3:
  "generate_subsector_diff_report cfg_2015
     [detailed_row_of ''Energy'' ''Energy:CO2'' (Fin 25) (Fin 20) (Fin (1 / 4)),
      detailed_row_of ''Waste'' ''Waste:CH4'' (Fin 3) (Fin 0) PInf,
      detailed_row_of ''Waste'' ''Waste:N2O'' (Fin 0) (Fin 0) NaN] =
     [subsector_row_of ''Energy'' (Fin 25) (Fin 20) (Fin (1 / 4)),
      subsector_row_of ''Waste'' (Fin 3) (Fin 0) PInf]"
  by (simp add: report_eval)

subsection \<open>The relative difference\<close>

lemma generate_detailed_diff_report_returns:
  assumes "''Subsector'' \<in> set (draft_columns d)" and "''Edgar_Class'' \<in> set (draft_columns d)"
  shows "generate_detailed_diff_report cfg d e =
     Inr (map (\<lambda>(k, v, e).
                  \<lparr> Simulation_Values = v, Year = ref_year cfg, Subsector = fst k,
                    Edgar_Values = e, diff = fdiv (fsub v e) e, Edgar_Class = snd k \<rparr>)
                (merge_left (groupby_sum (draft_rows d)) e))"
  using assms by (simp add: generate_detailed_diff_report_def)

text \<open>
  Claim C3. When the augmented mapping table has the two grouping columns, the detailed
  report is returned, and in it and in the subsector report built from it every row has
  \<open>diff = (Simulation_Values - Edgar_Values) / Edgar_Values\<close>; where \<open>Edgar_Values\<close> is
  \<open>0\<close> the \<open>diff\<close> is an infinity or \<open>NaN\<close>, so neither a number nor an exception.
\<close>

theorem diff_formula_and_undefined_marker:
  assumes "''Subsector'' \<in> set (draft_columns d)" and "''Edgar_Class'' \<in> set (draft_columns d)"
  shows "\<exists>D. generate_detailed_diff_report cfg d e = Inr D \<and>
           (\<forall>r \<in> set D.
              diff r = fdiv (fsub (Simulation_Values r) (Edgar_Values r)) (Edgar_Values r) \<and>
              (Edgar_Values r = Fin 0 \<longrightarrow> diff r \<in> {PInf, NInf, NaN})) \<and>
           (\<forall>r \<in> set (generate_subsector_diff_report cfg D).
              diff r = fdiv (fsub (Simulation_Values r) (Edgar_Values r)) (Edgar_Values r) \<and>
              (Edgar_Values r = Fin 0 \<longrightarrow> diff r \<in> {PInf, NInf, NaN}))"
proof -
  let ?D = "map (\<lambda>(k, v, e).
                  \<lparr> Simulation_Values = v, Year = ref_year cfg, Subsector = fst k,
                    Edgar_Values = e, diff = fdiv (fsub v e) e, Edgar_Class = snd k \<rparr>)
                (merge_left (groupby_sum (draft_rows d)) e)"
  have 1: "generate_detailed_diff_report cfg d e = Inr ?D"
    by (rule generate_detailed_diff_report_returns [OF assms])
  have 2: "\<forall>r \<in> set ?D.
              diff r = fdiv (fsub (Simulation_Values r) (Edgar_Values r)) (Edgar_Values r) \<and>
              (Edgar_Values r = Fin 0 \<longrightarrow> diff r \<in> {PInf, NInf, NaN})"
    by (auto intro: fdiv_by_zero)
  have 3: "\<forall>r \<in> set (generate_subsector_diff_report cfg ?D).
              diff r = fdiv (fsub (Simulation_Values r) (Edgar_Values r)) (Edgar_Values r) \<and>
              (Edgar_Values r = Fin 0 \<longrightarrow> diff r \<in> {PInf, NInf, NaN})"
    by (auto simp: generate_subsector_diff_report_def Let_def intro: fdiv_by_zero)
  from 1 2 3 show ?thesis by blast
qed

theorem diff_formula_and_undefined_marker_witness:
  "''Subsector'' \<in> set (draft_columns draft_3) \<and> ''Edgar_Class'' \<in> set (draft_columns draft_3) \<and>
   (\<exists>D. generate_detailed_diff_report cfg_2015 draft_3 edgar_3 = Inr D \<and>
      map Edgar_Values D = [Fin 20, Fin 0, Fin 0] \<and>
      map diff D = [Fin (1 / 4), PInf, NaN] \<and>
      map Edgar_Values (generate_subsector_diff_report cfg_2015 D) = [Fin 20, Fin 0] \<and>
      map diff (generate_subsector_diff_report cfg_2015 D) = [Fin (1 / 4), PInf])"
proof -
  have c1: "''Subsector'' \<in> set (draft_columns draft_3)"
    and c2: "''Edgar_Class'' \<in> set (draft_columns draft_3)"
    by (simp_all add: draft_3_def draft_of_def)
  from diff_formula_and_undefined_marker [OF c1 c2, of cfg_2015 edgar_3]
  obtain D where D: "generate_detailed_diff_report cfg_2015 draft_3 edgar_3 = Inr D"
    by blast
  with detailed_3 have D':
    "D = [detailed_row_of ''Energy'' ''Energy:CO2'' (Fin 25) (Fin 20) (Fin (1 / 4)),
          detailed_row_of ''Waste'' ''Waste:CH4'' (Fin 3) (Fin 0) PInf,
          detailed_row_of ''Waste'' ''Waste:N2O'' (Fin 0) (Fin 0) NaN]"
    by simp
  show ?thesis
    using c1 c2 by (simp add: D D' subsector_3)
qed

subsection \<open>Missing reference values at subsector level\<close>

lemma foldl_fadd_nan_to_zero:
  "foldl fadd a (filter (\<lambda>v. v \<noteq> NaN) (map (\<lambda>v. if v = NaN then Fin 0 else v) vs)) =
   foldl fadd a (filter (\<lambda>v. v \<noteq> NaN) vs)"
  by (induction vs arbitrary: a) auto

lemma sum_skipna_nan_to_zero:
  "sum_skipna (map (\<lambda>v. if v = NaN then Fin 0 else v) vs) = sum_skipna vs"
  by (simp add: sum_skipna_def foldl_fadd_nan_to_zero)

text \<open>
  Claim C10. The subsector report does not change when every missing \<open>Edgar_Values\<close>
  of the detailed report is replaced by \<open>0\<close>: a row without a reference match adds
  nothing to the sum of its subsector. In the example the row of \<open>Waste:N2O\<close> has no
  match and an undefined \<open>diff\<close>, and the \<open>diff\<close> of its subsector is the number
  \<open>-1/4\<close>.
\<close>

theorem missing_reference_counts_as_zero:
  "generate_subsector_diff_report cfg
     (map (\<lambda>r. if Edgar_Values r = NaN then r \<lparr> Edgar_Values := Fin 0 \<rparr> else r) D)
   = generate_subsector_diff_report cfg D \<and>
   map diff detailed_waste = [Fin (- 1 / 4), NaN] \<and>
   generate_subsector_diff_report cfg_2015 detailed_waste =
     [subsector_row_of ''Waste'' (Fin 3) (Fin 4) (Fin (- 1 / 4))]"
proof -
  let ?g = "\<lambda>r::detailed_row. if Edgar_Values r = NaN then r \<lparr> Edgar_Values := Fin 0 \<rparr> else r"
  have sub: "map Subsector (map ?g D) = map Subsector D"
    by (induction D) auto
  have flt: "filter (\<lambda>r. Subsector r = s) (map ?g D) = map ?g (filter (\<lambda>r. Subsector r = s) D)"
    for s
    by (induction D) auto
  have sim: "map Simulation_Values (map ?g X) = map Simulation_Values X" for X
    by (induction X) auto
  have edg: "map Edgar_Values (map ?g X)
               = map (\<lambda>v. if v = NaN then Fin 0 else v) (map Edgar_Values X)" for X
    by (induction X) auto
  have 1: "generate_subsector_diff_report cfg (map ?g D) = generate_subsector_diff_report cfg D"
    by (simp only: generate_subsector_diff_report_def Let_def sub flt sim edg
        sum_skipna_nan_to_zero)
  have 2: "map diff detailed_waste = [Fin (- 1 / 4), NaN]"
    by (simp add: detailed_waste_def)
  have 3: "generate_subsector_diff_report cfg_2015 detailed_waste =
     [subsector_row_of ''Waste'' (Fin 3) (Fin 4) (Fin (- 1 / 4))]"
    by (simp add: detailed_waste_def report_eval)
  from 1 2 3 show ?thesis by blast
qed

subsection \<open>The rows of the detailed report\<close>

lemma filter_key_at_most_one:
  "distinct (map f xs) \<Longrightarrow>
     filter (\<lambda>x. f x = c) xs = [] \<or> (\<exists>m. filter (\<lambda>x. f x = c) xs = [m])"
proof (induction xs)
  case Nil
  then show ?case by simp
next
  case (Cons x xs)
  show ?case
  proof (cases "f x = c")
    case True
    have "filter (\<lambda>x. f x = c) xs = []"
      using Cons.prems True by (auto simp: filter_empty_conv image_iff)
    with True show ?thesis by simp
  next
    case False
    with Cons show ?thesis by simp
  qed
qed

text \<open>
  When no two inventory rows have the same class, the merge keeps the rows of its left
  side one for one.
\<close>

lemma merge_left_distinct:
  assumes "distinct (map el_Edgar_Class edgar)"
  shows "merge_left agg edgar =
     map (\<lambda>(k, v). (k, v, (case filter (\<lambda>e. el_Edgar_Class e = snd k) edgar of
                          [] \<Rightarrow> NaN | m # ms \<Rightarrow> el_Edgar_Values m))) agg"
proof (induction agg)
  case Nil
  show ?case by (simp add: merge_left_def)
next
  case (Cons a agg)
  obtain k v where a: "a = (k, v)" by (cases a)
  from filter_key_at_most_one [OF assms, of "snd k"]
  have "(case filter (\<lambda>e. el_Edgar_Class e = snd k) edgar of
           [] \<Rightarrow> [(k, v, NaN)]
         | m # ms \<Rightarrow> map (\<lambda>e. (k, v, el_Edgar_Values e)) (m # ms))
        = [(k, v, (case filter (\<lambda>e. el_Edgar_Class e = snd k) edgar of
                          [] \<Rightarrow> NaN | m # ms \<Rightarrow> el_Edgar_Values m))]"
    by auto
  with Cons show ?case
    by (simp add: merge_left_def a)
qed

lemma keys_of_groupby_sum:
  "map fst (groupby_sum rs) = sort (remdups (List.map_filter group_key rs))"
  by (simp add: groupby_sum_def comp_def)

lemma group_key_Some_iff:
  "group_key r = Some (s, c) \<longleftrightarrow>
     mapping_cells r ''Subsector'' = Some s \<and> mapping_cells r ''Edgar_Class'' = Some c"
  by (simp add: group_key_def split: option.splits)

lemma set_map_filter: "set (List.map_filter f xs) = {y. \<exists>x \<in> set xs. f x = Some y}"
  by (induction xs) (auto simp: List.map_filter_simps split: option.splits)

lemma set_map_filter_group_key:
  "set (List.map_filter group_key rs) =
     {(s, c). \<exists>r \<in> set rs. mapping_cells r ''Subsector'' = Some s \<and>
                         mapping_cells r ''Edgar_Class'' = Some c}"
  by (auto simp: set_map_filter group_key_Some_iff)

text \<open>
  Claim C4, as amended. When the augmented mapping table has the two grouping columns
  and no two rows of the reference table have the same \<open>Edgar_Class\<close>, the detailed
  report is returned and has exactly one row for every pair (\<open>Subsector\<close>,
  \<open>Edgar_Class\<close>) that occurs, with both cells filled, in a row of the mapping; a row
  whose class is not in the reference table is in the report with \<open>NaN\<close> as
  \<open>Edgar_Values\<close>.
\<close>

theorem detailed_report_one_row_per_pair:
  assumes "''Subsector'' \<in> set (draft_columns d)" and "''Edgar_Class'' \<in> set (draft_columns d)"
    and "distinct (map el_Edgar_Class edgar)"
  shows "\<exists>D. generate_detailed_diff_report cfg d edgar = Inr D \<and>
           distinct (map (\<lambda>r. (Subsector r, Edgar_Class r)) D) \<and>
           set (map (\<lambda>r. (Subsector r, Edgar_Class r)) D) =
             {(s, c). \<exists>r \<in> set (draft_rows d).
                 mapping_cells r ''Subsector'' = Some s \<and>
                 mapping_cells r ''Edgar_Class'' = Some c} \<and>
           (\<forall>r \<in> set D. Edgar_Class r \<notin> el_Edgar_Class ` set edgar \<longrightarrow> Edgar_Values r = NaN)"
proof -
  let ?D = "map (\<lambda>(k, v, e).
                  \<lparr> Simulation_Values = v, Year = ref_year cfg, Subsector = fst k,
                    Edgar_Values = e, diff = fdiv (fsub v e) e, Edgar_Class = snd k \<rparr>)
                (merge_left (groupby_sum (draft_rows d)) edgar)"
  have 1: "generate_detailed_diff_report cfg d edgar = Inr ?D"
    by (rule generate_detailed_diff_report_returns [OF assms(1,2)])
  have keys: "map (\<lambda>r. (Subsector r, Edgar_Class r)) ?D
                = sort (remdups (List.map_filter group_key (draft_rows d)))"
    by (simp add: merge_left_distinct [OF assms(3)] comp_def case_prod_unfold
        keys_of_groupby_sum [symmetric])
  have 2: "distinct (map (\<lambda>r. (Subsector r, Edgar_Class r)) ?D)"
    unfolding keys by simp
  have 3: "set (map (\<lambda>r. (Subsector r, Edgar_Class r)) ?D) =
             {(s, c). \<exists>r \<in> set (draft_rows d).
                 mapping_cells r ''Subsector'' = Some s \<and>
                 mapping_cells r ''Edgar_Class'' = Some c}"
    unfolding keys by (simp add: set_map_filter_group_key)
  have 4: "\<forall>r \<in> set ?D. Edgar_Class r \<notin> el_Edgar_Class ` set edgar \<longrightarrow> Edgar_Values r = NaN"
  proof -
    have "c \<notin> el_Edgar_Class ` set edgar \<Longrightarrow> filter (\<lambda>e. el_Edgar_Class e = c) edgar = []"
      for c
      by (auto simp: filter_empty_conv)
    then show ?thesis
      by (auto simp: merge_left_distinct [OF assms(3)])
  qed
  from 1 2 3 4 show ?thesis by blast
qed

lemma detailed_3_energy:
  "generate_detailed_diff_report cfg_2015 draft_3 edgar_energy =
     Inr [detailed_row_of ''Energy'' ''Energy:CO2'' (Fin 25) (Fin 20) (Fin (1 / 4)),
          detailed_row_of ''Waste'' ''Waste:CH4'' (Fin 3) NaN NaN,
          detailed_row_of ''Waste'' ''Waste:N2O'' (Fin 0) NaN NaN]"
  by (simp add: report_eval draft_3_def edgar_energy_def)

theorem detailed_report_one_row_per_pair_witness:
  "''Subsector'' \<in> set (draft_columns draft_3) \<and> ''Edgar_Class'' \<in> set (draft_columns draft_3) \<and>
   distinct (map el_Edgar_Class edgar_energy) \<and>
   (\<exists>D. generate_detailed_diff_report cfg_2015 draft_3 edgar_energy = Inr D \<and>
      map (\<lambda>r. (Subsector r, Edgar_Class r)) D =
        [(''Energy'', ''Energy:CO2''), (''Waste'', ''Waste:CH4''), (''Waste'', ''Waste:N2O'')] \<and>
      map Edgar_Values D = [Fin 20, NaN, NaN])"
proof -
  have c1: "''Subsector'' \<in> set (draft_columns draft_3)"
    and c2: "''Edgar_Class'' \<in> set (draft_columns draft_3)"
    by (simp_all add: draft_3_def draft_of_def)
  have c3: "distinct (map el_Edgar_Class edgar_energy)"
    by (simp add: edgar_energy_def)
  from detailed_report_one_row_per_pair [OF c1 c2 c3, of cfg_2015]
  obtain D where D: "generate_detailed_diff_report cfg_2015 draft_3 edgar_energy = Inr D"
    by blast
  with detailed_3_energy have D':
    "D = [detailed_row_of ''Energy'' ''Energy:CO2'' (Fin 25) (Fin 20) (Fin (1 / 4)),
          detailed_row_of ''Waste'' ''Waste:CH4'' (Fin 3) NaN NaN,
          detailed_row_of ''Waste'' ''Waste:N2O'' (Fin 0) NaN NaN]"
    by simp
  show ?thesis
    using c1 c2 c3 by (simp add: D D')
qed

text \<open>
  The claim as stated fails: with two reference rows of the class \<open>Energy:CO2\<close> the
  one pair of the mapping has two rows in the detailed report.
\<close>

theorem detailed_report_repeats_pair:
  "generate_detailed_diff_report cfg_2015 draft_1 edgar_twice =
     Inr [detailed_row_of ''Energy'' ''Energy:CO2'' (Fin 10) (Fin 20) (Fin (- 1 / 2)),
          detailed_row_of ''Energy'' ''Energy:CO2'' (Fin 10) (Fin 5) (Fin 1)]"
  by (simp add: report_eval draft_1_def edgar_twice_def)

subsection \<open>The two-level roll-up\<close>













text \<open>
  The conditions on the mapping table are needed as well. A mapping row with a
  \<open>Subsector\<close> and no \<open>Edgar_Class\<close> is dropped by the first group-by and counted by
  the direct roll-up; and the two infinities in one group add up to \<open>NaN\<close>, which the
  second sum skips and the direct roll-up keeps.
\<close>

lemma rollup_drops_row_without_class:
  "generate_detailed_diff_report cfg_2015 draft_no_class edgar_energy = Inr [] \<and>
   generate_subsector_diff_report cfg_2015 [] = [] \<and>
   direct_subsector_totals draft_no_class = [(''Energy'', Fin 10)]"
  by (simp add: report_eval draft_no_class_def edgar_energy_def direct_subsector_totals_def
      group_key_def)

lemma rollup_skips_sum_of_infinities:
  "generate_detailed_diff_report cfg_2015 draft_infinite [] =
     Inr [detailed_row_of ''Energy'' ''Energy:CH4'' (Fin 5) NaN NaN,
          detailed_row_of ''Energy'' ''Energy:CO2'' NaN NaN NaN] \<and>
   generate_subsector_diff_report cfg_2015
     [detailed_row_of ''Energy'' ''Energy:CH4'' (Fin 5) NaN NaN,
      detailed_row_of ''Energy'' ''Energy:CO2'' NaN NaN NaN] =
     [subsector_row_of ''Energy'' (Fin 5) (Fin 0) PInf] \<and>
   direct_subsector_totals draft_infinite = [(''Energy'', NaN)]"
  by (simp add: report_eval draft_infinite_def direct_subsector_totals_def)

subsection \<open>The aggregator\<close>





lemma fits_int64_zero [simp]: "fits_int64 (Fin 0)"
  by (simp add: fits_int64_def)






lemmas aggregator_eval =
  calculate_ssp_emission_totals_def subsector_total_emissions_def sum_skipna_def
  set_update_def fits_int64_def mapping_row_def Let_def printed_lines_def set_iteration_def


lemma aggregate_mapping_4_returns:
  "\<exists>res. calculate_ssp_emission_totals True (\<lambda>_. 0) slice_2015 mapping_4 = Inr res"
  by (simp add: aggregator_eval slice_2015_def mapping_4_def sim_row_0_def)



text \<open>
  A total that is not a whole number: pandas 3 raises, earlier versions return the
  table.
\<close>

lemma aggregator_raises_on_fraction:
  "calculate_ssp_emission_totals True (\<lambda>_. 0) slice_half mapping_4 = Inl TypeError \<and>
   (\<exists>res. calculate_ssp_emission_totals False (\<lambda>_. 0) slice_half mapping_4 = Inr res)"
  by (simp add: aggregator_eval slice_half_def mapping_4_def sim_row_0_def)

subsection \<open>The mapping loader\<close>

text \<open>
  Claim C7, as amended. The loader fails with an \<open>IOError\<close> whenever the mapping file
  is missing or cannot be opened, and with an error of decoding or parsing whenever
  its content cannot be parsed as CSV. It does not look at the columns: a file that
  parses is returned as it is, also when \<open>Sector\<close>, \<open>Subsector\<close> or \<open>Vars\<close> is not among
  its columns.
\<close>

theorem mapping_loader_checks_no_columns:
  "(mapping_csv w = Missing \<longrightarrow> load_mapping_table cfg w = Inl FileNotFoundError) \<and>
   (mapping_csv w \<in> {Missing, NoPermission, Directory} \<longrightarrow>
      (\<exists>e. load_mapping_table cfg w = Inl e \<and> io_error e)) \<and>
   (mapping_csv w = Malformed \<longrightarrow> load_mapping_table cfg w = Inl ParserError) \<and>
   (mapping_csv w \<in> {Undecodable, Empty, Malformed} \<longrightarrow>
      (\<exists>e. load_mapping_table cfg w = Inl e \<and> parse_error e)) \<and>
   (\<forall>t. mapping_csv w = Parsed t \<longrightarrow> load_mapping_table cfg w = Inr t)"
  by (auto simp: load_mapping_table_def read_csv_def)

theorem mapping_loader_checks_no_columns_witness:
  "load_mapping_table cfg_2015 (world_of Missing (Parsed reference_2015))
     = Inl FileNotFoundError \<and>
   load_mapping_table cfg_2015 (world_of Malformed (Parsed reference_2015))
     = Inl ParserError \<and>
   load_mapping_table cfg_2015 (world_of (Parsed mapping_4) (Parsed reference_2015))
     = Inr mapping_4"
proof -
  have m: "mapping_csv (world_of f (Parsed reference_2015)) = f" for f
    by (simp add: world_of_def)
  from mapping_loader_checks_no_columns
         [of "world_of Missing (Parsed reference_2015)" cfg_2015]
    mapping_loader_checks_no_columns
         [of "world_of Malformed (Parsed reference_2015)" cfg_2015]
    mapping_loader_checks_no_columns
         [of "world_of (Parsed mapping_4) (Parsed reference_2015)" cfg_2015]
  show ?thesis
    by (simp add: m)
qed

text \<open>
  The claim as stated fails: a mapping file without the columns \<open>Sector\<close>,
  \<open>Subsector\<close> and \<open>Vars\<close> is loaded without an error.
\<close>

theorem mapping_without_columns_loads:
  "load_mapping_table cfg_2015 (world_of (Parsed mapping_no_columns) (Parsed reference_2015))
     = Inr mapping_no_columns \<and>
   ''Sector'' \<notin> set (columns mapping_no_columns) \<and>
   ''Subsector'' \<notin> set (columns mapping_no_columns) \<and>
   ''Vars'' \<notin> set (columns mapping_no_columns)"
  by (simp add: load_mapping_table_def read_csv_def world_of_def mapping_no_columns_def)

subsection \<open>The orchestrator\<close>

text \<open>
  The four files of a run have different paths, which is why the world has one slot
  for each of them.
\<close>

lemma paths_distinct:
  "distinct [mapping_table_path (init misc country iy ry rp),
             edga_file_path (init misc country iy ry rp),
             detailed_diff_report_path (init misc country iy ry rp),
             subsector_diff_report_path (init misc country iy ry rp)]"
  by (simp add: init_def path_join_def detailed_diff_report_path_def
      subsector_diff_report_path_def)

lemma str2015: "str_of_int 2015 = ''2015''"
  by (simp add: str_of_int_def str_of_nat.simps)

lemma edgar_data_etl_no_year:
  assumes "edgar_csv w = Parsed ref" and "str_of_int (ref_year cfg) \<notin> set (value_columns ref)"
  shows "edgar_data_etl cfg w = Inl (KeyError (str_of_int (ref_year cfg)))"
  using assms by (simp add: edgar_data_etl_def read_csv_def Let_def)

text \<open>
  Claim C6. When the inventory file parses and has no column named \<open>str(ref_year)\<close>,
  the run ends with an exception and leaves the world as it was: no report file is
  written and nothing is printed. When moreover the mapping file parses and the
  simulation table has the columns \<open>time_period\<close> and \<open>primary_id\<close>, the exception is
  the \<open>KeyError\<close> of \<open>melt\<close> for the missing year column.
\<close>

theorem missing_year_column_aborts_before_output:
  assumes "edgar_csv w = Parsed ref" and "str_of_int (ref_year cfg) \<notin> set (value_columns ref)"
  shows "(\<exists>e. generate_diff_reports cfg strict hash w simulation_df = (w, Inl e)) \<and>
         (\<forall>m. mapping_csv w = Parsed m \<longrightarrow>
               ''time_period'' \<in> set (columns simulation_df) \<longrightarrow>
               ''primary_id'' \<in> set (columns simulation_df) \<longrightarrow>
               generate_diff_reports cfg strict hash w simulation_df
                 = (w, Inl (KeyError (str_of_int (ref_year cfg)))))"
proof -
  note etl = edgar_data_etl_no_year [OF assms]
  have 1: "\<exists>e. generate_diff_reports cfg strict hash w simulation_df = (w, Inl e)"
    by (simp add: generate_diff_reports_def etl split: sum.splits)
  have 2: "generate_diff_reports cfg strict hash w simulation_df
                 = (w, Inl (KeyError (str_of_int (ref_year cfg))))"
    if "mapping_csv w = Parsed m" "''time_period'' \<in> set (columns simulation_df)"
       "''primary_id'' \<in> set (columns simulation_df)" for m
  proof -
    from load_simulation_output_data_returns [OF that(2,3), of cfg]
    obtain out where "load_simulation_output_data cfg simulation_df = Inr out" by blast
    with that(1) show ?thesis
      by (simp add: generate_diff_reports_def etl load_mapping_table_def read_csv_def)
  qed
  from 1 2 show ?thesis by blast
qed

theorem missing_year_column_aborts_before_output_witness:
  "edgar_csv (world_of (Parsed mapping_4) (Parsed reference_2014_only))
     = Parsed reference_2014_only \<and>
   str_of_int (ref_year cfg_2015) \<notin> set (value_columns reference_2014_only) \<and>
   generate_diff_reports cfg_2015 True (\<lambda>_. 0)
       (world_of (Parsed mapping_4) (Parsed reference_2014_only)) sim_2015
     = (world_of (Parsed mapping_4) (Parsed reference_2014_only), Inl (KeyError ''2015''))"
proof -
  let ?w = "world_of (Parsed mapping_4) (Parsed reference_2014_only)"
  have y: "str_of_int (ref_year cfg_2015) = ''2015''"
    by (simp add: cfg_2015_def init_def str2015)
  have h1: "edgar_csv ?w = Parsed reference_2014_only"
    by (simp add: world_of_def)
  have h2: "str_of_int (ref_year cfg_2015) \<notin> set (value_columns reference_2014_only)"
    by (simp add: y reference_2014_only_def)
  have m: "mapping_csv ?w = Parsed mapping_4"
    by (simp add: world_of_def)
  have c: "''time_period'' \<in> set (columns sim_2015)" "''primary_id'' \<in> set (columns sim_2015)"
    by (simp_all add: sim_2015_def)
  from missing_year_column_aborts_before_output [OF h1 h2, of True "\<lambda>_. 0" sim_2015] m c
  have "generate_diff_reports cfg_2015 True (\<lambda>_. 0) ?w sim_2015
          = (?w, Inl (KeyError (str_of_int (ref_year cfg_2015))))"
    by blast
  with h1 h2 show ?thesis
    by (simp add: y)
qed

lemma inputs_kept:
  "mapping_csv (fst (generate_diff_reports cfg strict hash w simulation_df)) = mapping_csv w \<and>
   edgar_csv (fst (generate_diff_reports cfg strict hash w simulation_df)) = edgar_csv w"
  by (auto simp: generate_diff_reports_def Let_def split: sum.splits prod.splits)

lemma reports_depend_on_inputs:
  assumes "mapping_csv w' = mapping_csv w" and "edgar_csv w' = edgar_csv w"
  shows "snd (generate_diff_reports cfg strict hash' w' simulation_df)
           = snd (generate_diff_reports cfg strict hash w simulation_df)"
  using assms
  by (auto simp: generate_diff_reports_def calculate_ssp_emission_totals_def
      load_mapping_table_def edgar_data_etl_def Let_def split: sum.splits prod.splits)

lemma files_follow_result:
  "detailed_diff_report_csv (fst (generate_diff_reports cfg strict hash w simulation_df)) =
     (case snd (generate_diff_reports cfg strict hash w simulation_df) of
        Inl e \<Rightarrow> detailed_diff_report_csv w | Inr (d, s) \<Rightarrow> Some d) \<and>
   subsector_diff_report_csv (fst (generate_diff_reports cfg strict hash w simulation_df)) =
     (case snd (generate_diff_reports cfg strict hash w simulation_df) of
        Inl e \<Rightarrow> subsector_diff_report_csv w | Inr (d, s) \<Rightarrow> Some s)"
  by (auto simp: generate_diff_reports_def Let_def split: sum.splits prod.splits)

text \<open>
  Claim C9. The reports and the two report files of a run are the same for every order
  in which the interpreter iterates over the set of missing variables, the only thing
  in a run that is not fixed by its inputs; and a second run, started in the world the
  first one left, returns the same reports and writes the same files.
\<close>

theorem generate_diff_reports_repeatable:
  "snd (generate_diff_reports cfg strict hash2 w simulation_df)
     = snd (generate_diff_reports cfg strict hash1 w simulation_df) \<and>
   detailed_diff_report_csv (fst (generate_diff_reports cfg strict hash2 w simulation_df))
     = detailed_diff_report_csv (fst (generate_diff_reports cfg strict hash1 w simulation_df)) \<and>
   subsector_diff_report_csv (fst (generate_diff_reports cfg strict hash2 w simulation_df))
     = subsector_diff_report_csv (fst (generate_diff_reports cfg strict hash1 w simulation_df)) \<and>
   snd (generate_diff_reports cfg strict hash2
          (fst (generate_diff_reports cfg strict hash1 w simulation_df)) simulation_df)
     = snd (generate_diff_reports cfg strict hash1 w simulation_df) \<and>
   detailed_diff_report_csv (fst (generate_diff_reports cfg strict hash2
          (fst (generate_diff_reports cfg strict hash1 w simulation_df)) simulation_df))
     = detailed_diff_report_csv (fst (generate_diff_reports cfg strict hash1 w simulation_df)) \<and>
   subsector_diff_report_csv (fst (generate_diff_reports cfg strict hash2
          (fst (generate_diff_reports cfg strict hash1 w simulation_df)) simulation_df))
     = subsector_diff_report_csv (fst (generate_diff_reports cfg strict hash1 w simulation_df))"
proof -
  let ?w1 = "fst (generate_diff_reports cfg strict hash1 w simulation_df)"
  have a: "snd (generate_diff_reports cfg strict hash2 w simulation_df)
             = snd (generate_diff_reports cfg strict hash1 w simulation_df)"
    by (rule reports_depend_on_inputs) simp_all
  have b: "snd (generate_diff_reports cfg strict hash2 ?w1 simulation_df)
             = snd (generate_diff_reports cfg strict hash1 w simulation_df)"
    by (rule reports_depend_on_inputs) (simp_all add: inputs_kept)
  show ?thesis
    by (simp add: files_follow_result a b split: sum.splits)
qed

subsection \<open>The methods on the store\<close>

text \<open>
  Every object that is in the store when a method is called is the same when the
  method ends, and what the method returns there is what the method on values returns.
\<close>

lemma load_st_frame:
  "take (length h) (fst (load_simulation_output_data_st cfg h a)) = h"
  by (simp add: load_simulation_output_data_st_def alloc_def Let_def split: obj.splits)

lemma iterrows_st_frame:
  "n \<le> d \<Longrightarrow> take n (fst (iterrows_st strict sim d is h miss)) = take n h"
proof (induction "is" arbitrary: h miss)
  case Nil
  then show ?case by simp
next
  case (Cons i "is")
  show ?case
    using Cons.prems
    by (simp add: Let_def Cons.IH [OF Cons.prems] split: obj.splits option.splits)
qed

lemma fst_case_result:
  "fst (case p of (h3, Inl e) \<Rightarrow> (h3, Inl e) | (h3, Inr mv) \<Rightarrow> (h3, Inr (g mv))) = fst p"
  by (cases p; cases "snd p") auto

lemma aggregator_st_frame:
  "take (length h) (fst (calculate_ssp_emission_totals_st strict hash h s m)) = h"
  by (simp add: calculate_ssp_emission_totals_st_def alloc_def fst_case_result
      iterrows_st_frame split: obj.splits)

lemma detailed_st_frame:
  "take (length h) (fst (generate_detailed_diff_report_st cfg h d e)) = h"
  by (simp add: generate_detailed_diff_report_st_def alloc_def Let_def
      split: obj.splits prod.splits)


lemma load_st_refines:
  assumes "h ! a = SimFrame df"
  shows "(case load_simulation_output_data_st cfg h a of
            (h', r) \<Rightarrow> map_sum id (\<lambda>x. h' ! x) r)
         = map_sum id SimFrame (load_simulation_output_data cfg df)"
  using assms
  by (simp add: load_simulation_output_data_st_def load_simulation_output_data_def alloc_def
      Let_def nth_append)

lemma iterrows_st_refines:
  assumes "d < length h"
    and "h ! d = DraftFrame \<lparr> draft_columns = cols',
            draft_rows = pre @ map (\<lambda>r. \<lparr> Simulation_Values = Fin 0, mapping_cells = r \<rparr>) rs \<rparr>"
    and "''Vars'' \<in> set cols' \<longleftrightarrow> ''Vars'' \<in> set cols"
  shows "iterrows_st strict sim d [length pre ..< length pre + length rs] h miss =
           (case iterrows strict sim cols rs miss of
              Inl e \<Rightarrow> (fst (iterrows_st strict sim d [length pre ..< length pre + length rs] h miss),
                         Inl e)
            | Inr (acc, m) \<Rightarrow>
                (h[d := DraftFrame \<lparr> draft_columns = cols', draft_rows = pre @ acc \<rparr>], Inr m))"
  using assms(1,2)
proof (induction rs arbitrary: pre h miss)
  case Nil
  then show ?case
    by (simp add: list_update_same_conv [THEN iffD2])
next
  case (Cons r rs)
  let ?init = "\<lambda>r. \<lparr> Simulation_Values = Fin 0, mapping_cells = r \<rparr>"
  define IS where "IS = [Suc (length pre) ..< Suc (length pre) + length rs]"
  have upt: "[length pre ..< length pre + length (r # rs)] = length pre # IS"
    unfolding IS_def by (subst upt_rec) simp
  have main: "iterrows_st strict sim d (length pre # IS) h miss =
           (case iterrows strict sim cols (r # rs) miss of
              Inl e \<Rightarrow> (fst (iterrows_st strict sim d (length pre # IS) h miss), Inl e)
            | Inr (acc, m) \<Rightarrow>
                (h[d := DraftFrame \<lparr> draft_columns = cols', draft_rows = pre @ acc \<rparr>], Inr m))"
  proof (cases "''Vars'' \<in> set cols")
    case False
    with assms(3) Cons.prems show ?thesis
      by simp
  next
    case True
    show ?thesis
    proof (cases "r ''Vars''")
      case None
      with True assms(3) Cons.prems show ?thesis
        by (simp add: nth_append)
    next
      case (Some v)
      let ?row = "\<lparr> Simulation_Values = subsector_total_emissions sim (split_colon v),
                     mapping_cells = r \<rparr>"
      let ?miss' = "set_update miss (filter (\<lambda>var. var \<notin> set (columns sim)) (split_colon v))"
      let ?h' = "h[d := DraftFrame \<lparr> draft_columns = cols',
                    draft_rows = (pre @ [?row]) @ map ?init rs \<rparr>]"
      show ?thesis
      proof (cases "strict \<and> \<not> fits_int64 (subsector_total_emissions sim (split_colon v))")
        case raises: True
        with True assms(3) Cons.prems Some show ?thesis
          by (simp add: nth_append Let_def)
      next
        case fits: False
      have nf: "(strict \<and> \<not> fits_int64 (subsector_total_emissions sim (split_colon v))) = False"
        using fits by simp
      have step: "iterrows_st strict sim d (length pre # IS) h miss = iterrows_st strict sim d IS ?h' ?miss'"
        using True assms(3) Cons.prems Some
        by (simp add: nth_append Let_def list_update_append nf)
      have IS: "IS = [length (pre @ [?row]) ..< length (pre @ [?row]) + length rs]"
        by (simp add: IS_def del: upt_Suc)
      have IH: "iterrows_st strict sim d IS ?h' ?miss' =
           (case iterrows strict sim cols rs ?miss' of
              Inl e \<Rightarrow> (fst (iterrows_st strict sim d IS ?h' ?miss'), Inl e)
            | Inr (acc, m) \<Rightarrow>
                (?h'[d := DraftFrame \<lparr> draft_columns = cols',
                        draft_rows = (pre @ [?row]) @ acc \<rparr>], Inr m))"
        unfolding IS using Cons.prems by (intro Cons.IH) simp_all
      show ?thesis
        unfolding step
        by (subst IH) (simp add: True Some Let_def nf split: sum.splits)
      qed
    qed
  qed
  show ?case
    unfolding upt by (rule main)
qed


lemma aggregator_st_refines:
  assumes "h ! s = SimFrame sdf" and "h ! m = MappingFrame mdf"
  shows "(case calculate_ssp_emission_totals_st strict hash h s m of
            (h', r) \<Rightarrow> map_sum id (\<lambda>(d, mv, pr). (h' ! d, mv, pr)) r)
         = map_sum id (\<lambda>(draft, mv, pr). (DraftFrame draft, mv, pr))
             (calculate_ssp_emission_totals strict hash sdf mdf)"
proof -
  let ?init = "\<lambda>r. \<lparr> Simulation_Values = Fin 0, mapping_cells = r \<rparr>"
  define cols' where "cols' = (if ''Simulation_Values'' \<in> set (columns mdf) then columns mdf
                else columns mdf @ [''Simulation_Values''])"
  define h2 where "h2 = h @ [DraftFrame
                \<lparr> draft_columns = cols', draft_rows = map ?init (rows mdf) \<rparr>]"
  have v: "''Vars'' \<in> set cols' \<longleftrightarrow> ''Vars'' \<in> set (columns mdf)"
    by (simp add: cols'_def)
  have d: "length h < length h2"
    by (simp add: h2_def)
  have at: "h2 ! length h = DraftFrame
              \<lparr> draft_columns = cols', draft_rows = [] @ map ?init (rows mdf) \<rparr>"
    by (simp add: h2_def)
  from iterrows_st_refines [OF d at v, of strict sdf "[]"]
  have loop: "iterrows_st strict sdf (length h) [0 ..< length (rows mdf)] h2 [] =
           (case iterrows strict sdf (columns mdf) (rows mdf) [] of
              Inl e \<Rightarrow> (fst (iterrows_st strict sdf (length h) [0 ..< length (rows mdf)] h2 []), Inl e)
            | Inr (acc, mv) \<Rightarrow>
                (h2[length h := DraftFrame \<lparr> draft_columns = cols', draft_rows = acc \<rparr>],
                 Inr mv))"
    by (simp only: list.size append_Nil add_0)
  have st: "calculate_ssp_emission_totals_st strict hash h s m =
      (case iterrows_st strict sdf (length h) [0 ..< length (rows mdf)] h2 [] of
         (h3, Inl e) \<Rightarrow> (h3, Inl e)
       | (h3, Inr mv) \<Rightarrow> (h3, Inr (length h, mv, printed_lines hash mv)))"
    using assms by (simp add: calculate_ssp_emission_totals_st_def alloc_def h2_def cols'_def)
  have pure: "calculate_ssp_emission_totals strict hash sdf mdf =
      (case iterrows strict sdf (columns mdf) (rows mdf) [] of
         Inl e \<Rightarrow> Inl e
       | Inr (acc, mv) \<Rightarrow>
           Inr (\<lparr> draft_columns = cols', draft_rows = acc \<rparr>, mv, printed_lines hash mv))"
    unfolding calculate_ssp_emission_totals_def cols'_def by simp
  show ?thesis
    unfolding st pure
    by (subst loop) (simp add: h2_def split: sum.splits)
qed

lemma detailed_rows_zip:
  "map (\<lambda>((k, v, e), d, y).
          \<lparr> Simulation_Values = v, Year = y, Subsector = fst k, Edgar_Values = e, diff = d,
            Edgar_Class = snd k \<rparr>)
     (zip merged (zip (map (\<lambda>(k, v, e). fdiv (fsub v e) e) merged) (map (\<lambda>_. y0) merged)))
   = map (\<lambda>(k, v, e).
          \<lparr> Simulation_Values = v, Year = y0, Subsector = fst k, Edgar_Values = e,
            diff = fdiv (fsub v e) e, Edgar_Class = snd k \<rparr>) merged"
  by (induction merged) auto

lemma detailed_st_refines:
  assumes "h ! d = DraftFrame ddf" and "h ! e = EdgarFrame edf"
  shows "(case generate_detailed_diff_report_st cfg h d e of
            (h', r) \<Rightarrow> map_sum id (\<lambda>x. h' ! x) r)
         = map_sum id DetailedFrame (generate_detailed_diff_report cfg ddf edf)"
  using assms
  by (simp add: generate_detailed_diff_report_st_def generate_detailed_diff_report_def
      alloc_def Let_def nth_append detailed_rows_zip)

text \<open>
  Claim C8. After the simulation filter, the aggregator and the detailed diff builder
  have run, whether they return or raise, every object that was in the store before
  the call is unchanged, in particular the frames passed as arguments: the raw
  simulation output, the mapping table, the augmented mapping table and the reference
  table. Each of the three methods writes only to objects it has created.
\<close>

theorem methods_leave_their_arguments_unchanged:
  assumes "simulation_df < length h" and "mapping_df < length h"
    and "draft < length h" and "edgar < length h"
  shows "take (length h) (fst (load_simulation_output_data_st cfg h simulation_df)) = h \<and>
         fst (load_simulation_output_data_st cfg h simulation_df) ! simulation_df
           = h ! simulation_df \<and>
         take (length h) (fst (calculate_ssp_emission_totals_st strict hash h simulation_df mapping_df))
           = h \<and>
         fst (calculate_ssp_emission_totals_st strict hash h simulation_df mapping_df) ! simulation_df
           = h ! simulation_df \<and>
         fst (calculate_ssp_emission_totals_st strict hash h simulation_df mapping_df) ! mapping_df
           = h ! mapping_df \<and>
         take (length h) (fst (generate_detailed_diff_report_st cfg h draft edgar)) = h \<and>
         fst (generate_detailed_diff_report_st cfg h draft edgar) ! draft = h ! draft \<and>
         fst (generate_detailed_diff_report_st cfg h draft edgar) ! edgar = h ! edgar"
proof -
  have kept: "h' ! a = h ! a" if "take (length h) h' = h" and "a < length h" for h' a
  proof -
    from that(2) have "take (length h) h' ! a = h' ! a" by simp
    with that(1) show ?thesis by simp
  qed
  note f1 = load_st_frame [of h cfg simulation_df]
  note f2 = aggregator_st_frame [of h strict hash simulation_df mapping_df]
  note f3 = detailed_st_frame [of h cfg draft edgar]
  show ?thesis
    using f1 f2 f3 kept [OF f1 assms(1)] kept [OF f2 assms(1)] kept [OF f2 assms(2)]
      kept [OF f3 assms(3)] kept [OF f3 assms(4)]
    by simp
qed

lemma filter_on_store_4: "snd (load_simulation_output_data_st cfg_2015 store_4 0) = Inr 5"
  by (simp add: load_simulation_output_data_st_def store_4_def alloc_def setitem_def
      sim_2015_def Let_def)

lemma aggregator_on_store_4:
  "\<exists>mv pr. snd (calculate_ssp_emission_totals_st True (\<lambda>_. 0) store_4 0 1) = Inr (4, mv, pr)"
  by (simp add: calculate_ssp_emission_totals_st_def store_4_def alloc_def mapping_4_def
      mapping_row_def Let_def upt_rec subsector_total_emissions_def sum_skipna_def
      fits_int64_def sim_2015_def sim_row_0_def sim_row_1_def split: prod.splits)

lemma detailed_on_store_4: "snd (generate_detailed_diff_report_st cfg_2015 store_4 2 3) = Inr 7"
  by (simp add: generate_detailed_diff_report_st_def store_4_def alloc_def draft_3_def
      draft_of_def Let_def)

theorem methods_leave_their_arguments_unchanged_witness:
  "0 < length store_4 \<and> 1 < length store_4 \<and> 2 < length store_4 \<and> 3 < length store_4 \<and>
   snd (load_simulation_output_data_st cfg_2015 store_4 0) = Inr 5 \<and>
   fst (load_simulation_output_data_st cfg_2015 store_4 0) ! 0 = SimFrame sim_2015 \<and>
   (\<exists>mv pr. snd (calculate_ssp_emission_totals_st True (\<lambda>_. 0) store_4 0 1) = Inr (4, mv, pr)) \<and>
   fst (calculate_ssp_emission_totals_st True (\<lambda>_. 0) store_4 0 1) ! 0 = SimFrame sim_2015 \<and>
   fst (calculate_ssp_emission_totals_st True (\<lambda>_. 0) store_4 0 1) ! 1 = MappingFrame mapping_4 \<and>
   snd (generate_detailed_diff_report_st cfg_2015 store_4 2 3) = Inr 7 \<and>
   fst (generate_detailed_diff_report_st cfg_2015 store_4 2 3) ! 2 = DraftFrame draft_3 \<and>
   fst (generate_detailed_diff_report_st cfg_2015 store_4 2 3) ! 3 = EdgarFrame edgar_energy"
proof -
  have l: "0 < length store_4" "1 < length store_4" "2 < length store_4" "3 < length store_4"
    by (simp_all add: store_4_def)
  have s: "store_4 ! 0 = SimFrame sim_2015" "store_4 ! Suc 0 = MappingFrame mapping_4"
    "store_4 ! 2 = DraftFrame draft_3" "store_4 ! 3 = EdgarFrame edgar_energy"
    by (simp_all add: store_4_def)
  from methods_leave_their_arguments_unchanged [OF l, of cfg_2015 True "\<lambda>_. 0"]
  show ?thesis
    using l filter_on_store_4 aggregator_on_store_4 detailed_on_store_4
    by (simp add: s)
qed

subsection \<open>A whole run\<close>

text \<open>
  The run on the example files: the two mapping rows of \<open>Energy:CO2\<close> get \<open>15\<close> and
  \<open>10\<close>, their group has \<open>25\<close> against the \<open>20\<close> of the inventory, and the relative
  difference is \<open>1/4\<close>.
\<close>

lemma etl_2015:
  "edgar_data_etl cfg_2015 (world_of m (Parsed reference_2015)) =
     Inr [edgar_row_of ''Energy:CO2'' (Fin 20), edgar_row_of ''Waste:CH4'' (Fin 4)]"
  by (simp add: edgar_data_etl_def read_csv_def cfg_2015_def init_def reference_2015_def
      reference_row_of_def world_of_def Let_def str2015 int_of_str_def edgar_row_of_def)

lemma filter_2015: "load_simulation_output_data cfg_2015 sim_2015 = Inr slice_2015"
  by (simp add: load_simulation_output_data_def setitem_def cfg_2015_def init_def sim_2015_def
      sim_row_0_def sim_row_1_def slice_2015_def Let_def)

lemma scenario_reports:
  "snd (generate_diff_reports cfg_2015 True (\<lambda>_. 0)
          (world_of (Parsed mapping_4) (Parsed reference_2015)) sim_2015) =
     Inr ([detailed_row_of ''Energy'' ''Energy:CO2'' (Fin 25) (Fin 20) (Fin (1 / 4)),
           detailed_row_of ''Waste'' ''Waste:CH4'' (Fin 0) (Fin 4) (Fin (- 1)),
           detailed_row_of ''Waste'' ''Waste:N2O'' (Fin 0) NaN NaN],
          [subsector_row_of ''Energy'' (Fin 25) (Fin 20) (Fin (1 / 4)),
           subsector_row_of ''Waste'' (Fin 0) (Fin 4) (Fin (- 1))])"
proof -
  have m: "load_mapping_table cfg_2015 (world_of (Parsed mapping_4) (Parsed reference_2015))
             = Inr mapping_4"
    by (simp add: load_mapping_table_def read_csv_def world_of_def)
  from aggregate_mapping_4_returns obtain draft mv pr where
    a: "calculate_ssp_emission_totals True (\<lambda>_. 0) slice_2015 mapping_4 = Inr (draft, mv, pr)"
    by (metis prod_cases3)
  have cols: "draft_columns draft = [''Sector'', ''Subsector'', ''Vars'', ''Edgar_Class'', ''Simulation_Values'']"
    using a by (auto simp: calculate_ssp_emission_totals_def mapping_4_def split: sum.splits)
  have rows: "draft_rows draft =
     [\<lparr> Simulation_Values = Fin 15, mapping_cells = mapping_row ''En'' ''Energy'' ''CO2_A:CO2_B'' ''Energy:CO2'' \<rparr>,
      \<lparr> Simulation_Values = Fin 10, mapping_cells = mapping_row ''En'' ''Energy'' ''CO2_A'' ''Energy:CO2'' \<rparr>,
      \<lparr> Simulation_Values = Fin 0, mapping_cells = mapping_row ''Wa'' ''Waste'' ''CH4_X:co2_a'' ''Waste:CH4'' \<rparr>,
      \<lparr> Simulation_Values = Fin 0, mapping_cells = mapping_row ''Wa'' ''Waste'' ''CH4_X'' ''Waste:N2O'' \<rparr>]"
    using a
    by (auto simp add: calculate_ssp_emission_totals_def subsector_total_emissions_def
      sum_skipna_def set_update_def slice_2015_def mapping_4_def mapping_row_def sim_row_0_def
      fits_int64_def Let_def split: if_splits)
  have gk: "group_key \<lparr> Simulation_Values = v, mapping_cells = mapping_row a b c d \<rparr> = Some (b, d)" for v a b c d
    by (simp add: group_key_def mapping_row_def)
  have d: "generate_detailed_diff_report cfg_2015 draft
             [edgar_row_of ''Energy:CO2'' (Fin 20), edgar_row_of ''Waste:CH4'' (Fin 4)] =
           Inr [detailed_row_of ''Energy'' ''Energy:CO2'' (Fin 25) (Fin 20) (Fin (1 / 4)),
           detailed_row_of ''Waste'' ''Waste:CH4'' (Fin 0) (Fin 4) (Fin (- 1)),
           detailed_row_of ''Waste'' ''Waste:N2O'' (Fin 0) NaN NaN]"
    by (simp add: generate_detailed_diff_report_def cols rows gk groupby_sum_def merge_left_def
        List.map_filter_simps sum_skipna_def fsub_def edgar_row_of_def detailed_row_of_def
        cfg_2015_def init_def)
  have s: "generate_subsector_diff_report cfg_2015
      [detailed_row_of ''Energy'' ''Energy:CO2'' (Fin 25) (Fin 20) (Fin (1 / 4)),
           detailed_row_of ''Waste'' ''Waste:CH4'' (Fin 0) (Fin 4) (Fin (- 1)),
           detailed_row_of ''Waste'' ''Waste:N2O'' (Fin 0) NaN NaN] =
      [subsector_row_of ''Energy'' (Fin 25) (Fin 20) (Fin (1 / 4)),
           subsector_row_of ''Waste'' (Fin 0) (Fin 4) (Fin (- 1))]"
    by (simp add: report_eval)
  show ?thesis
    by (simp add: generate_diff_reports_def m filter_2015 etl_2015 a d s Let_def)
qed

end
